theory Spec2Isabelle
  imports Main
begin

section \<open>Python values used by the probe endpoint\<close>

text \<open>
  A Python \<^verbatim>\<open>str\<close> is a sequence of Unicode code points, and both \<^verbatim>\<open>len\<close> and
  slicing count code points. A string is therefore the list of its code points; the
  ASCII part of a literal is written with \<open>lit\<close>, the two pictographs of
  \<^verbatim>\<open>app.py\<close> by their code points (U+2705; U+26A0 followed by U+FE0F).
\<close>

type_synonym py_str = "nat list"

definition lit :: "string \<Rightarrow> py_str" where
  "lit s = map of_char s"

datatype py_value = PyStr py_str | PyInt int

text \<open>
  A raised object. \<open>exc_class\<close> is the name of its class, \<open>is_Exception\<close> says
  whether that class derives from \<^verbatim>\<open>Exception\<close> (every error class does;
  \<^verbatim>\<open>KeyboardInterrupt\<close>, \<^verbatim>\<open>SystemExit\<close> and \<^verbatim>\<open>GeneratorExit\<close> derive from
  \<^verbatim>\<open>BaseException\<close> only), and \<open>exc_str\<close> is the outcome of the call
  \<^verbatim>\<open>str(e)\<close>, which runs the \<^verbatim>\<open>__str__\<close> method of the class: the text it returns
  (\<open>Inr\<close>), or the object raised by the call (\<open>Inl\<close>) when \<^verbatim>\<open>__str__\<close> raises, or
  returns something that is not a \<^verbatim>\<open>str\<close>, for which \<^verbatim>\<open>str\<close> raises a
  \<^verbatim>\<open>TypeError\<close>.
\<close>

datatype py_exception =
  PyException (exc_class: string) (is_Exception: bool) (exc_str: "py_exception + py_str")

section \<open>The database client library, as the handler sees it\<close>

text \<open>
  \<^verbatim>\<open>mysql.connector.connect\<close> is called with keyword arguments and either returns a
  connection object or raises. What it does for given arguments depends on the network
  and on the server at the time of the call: that behaviour is the parameter
  \<open>connector\<close>. Every operation on the database side is recorded in a trace, so that
  what the handler does with a connection is visible.
\<close>

type_synonym kwargs = "(string \<times> py_value) list"

datatype connect_result = Connected nat | Raised py_exception

type_synonym connector = "kwargs \<Rightarrow> connect_result"

datatype db_op = Connect kwargs | Query nat py_str | Close nat

section \<open>Module-level state of \<^verbatim>\<open>app.py\<close>\<close>

record module_globals =
  RDS_HOST :: py_str
  RDS_PORT :: int
  RDS_USER :: py_str
  RDS_PASS :: py_str
  RDS_DB :: py_str

text \<open>\<^verbatim>\<open>os.environ.get(key, default)\<close>: the value stored under the key, else the default.\<close>

definition environ_get :: "(py_str \<rightharpoonup> py_str) \<Rightarrow> py_str \<Rightarrow> py_str \<Rightarrow> py_str" where
  "environ_get environ key dflt = (case environ key of Some v \<Rightarrow> v | None \<Rightarrow> dflt)"

text \<open>The assignments of lines 8 to 12, run once when the module is loaded.\<close>

definition module_init :: "(py_str \<rightharpoonup> py_str) \<Rightarrow> module_globals" where
  "module_init environ =
     \<lparr>RDS_HOST = environ_get environ (lit ''RDS_HOST'') (lit ''your-db-endpoint.rds.amazonaws.com''),
      RDS_PORT = 3306,
      RDS_USER = lit ''admin'',
      RDS_PASS = lit ''MyDBPass123!'',
      RDS_DB = lit ''testdb''\<rparr>"

text \<open>
  The state a request runs in: the module's globals and the trace of database
  operations performed so far.
\<close>

record process =
  globals :: module_globals
  db_trace :: "db_op list"

definition mysql_connector_connect :: "connector \<Rightarrow> kwargs \<Rightarrow> process \<Rightarrow> connect_result \<times> process" where
  "mysql_connector_connect c kw s = (c kw, s\<lparr>db_trace := db_trace s @ [Connect kw]\<rparr>)"

section \<open>The handler\<close>

text \<open>
  The expression \<^verbatim>\<open>str(e)[:50]\<close> of the failure message: the first 50 characters
  of the text that \<^verbatim>\<open>str(e)\<close> returns, the whole text when it has fewer; when the
  call \<^verbatim>\<open>str(e)\<close> raises, so does the expression.
\<close>

definition error_detail :: "py_exception \<Rightarrow> py_exception + py_str" where
  "error_detail e =
     (case exc_str e of
        Inl raised \<Rightarrow> Inl raised
      | Inr text \<Rightarrow> Inr (take 50 text))"

text \<open>
  \<^verbatim>\<open>home\<close>: the \<^verbatim>\<open>try\<close> block calls the connector with the four keyword
  arguments of lines 18 to 21 (\<open>home_kwargs\<close>, read from the module's globals) and
  returns the success text; \<^verbatim>\<open>except Exception as e\<close> intercepts a raised object
  whose class derives from \<^verbatim>\<open>Exception\<close> and returns the failure text; any other
  raised object leaves the function (\<open>Inl\<close>). The failure text is built inside the
  \<^verbatim>\<open>except\<close> block, with no handler around it: what \<^verbatim>\<open>str(e)\<close> raises there
  leaves the function too. The connection object is bound to a local name and never
  used.
\<close>

definition home_kwargs :: "module_globals \<Rightarrow> kwargs" where
  "home_kwargs g =
     [(''host'', PyStr (RDS_HOST g)),
      (''user'', PyStr (RDS_USER g)),
      (''password'', PyStr (RDS_PASS g)),
      (''port'', PyInt (RDS_PORT g))]"

definition home :: "connector \<Rightarrow> process \<Rightarrow> (py_exception + py_str) \<times> process" where
  "home c s =
     (case mysql_connector_connect c (home_kwargs (globals s)) s of
        (Connected conn, s') \<Rightarrow>
          (Inr (0x2705 # lit '' Connected to RDS MySQL instance''), s')
      | (Raised e, s') \<Rightarrow>
          (if is_Exception e
           then (case error_detail e of
                   Inr detail \<Rightarrow>
                     (Inr ([0x26A0, 0xFE0F]
                           @ lit '' Backend is running but RDS connection failed: ''
                           @ detail @ lit ''...''), s')
                 | Inl raised \<Rightarrow> (Inl raised, s'))
           else (Inl e, s')))"

section \<open>The route\<close>

text \<open>
  \<^verbatim>\<open>@app.route("/")\<close> registers \<^verbatim>\<open>home\<close> for the path \<^verbatim>\<open>/\<close>. The framework calls the
  view function with the variable parts of the URL rule as arguments, of which the rule
  \<^verbatim>\<open>/\<close> has none. The request object is not passed to \<^verbatim>\<open>home\<close>, and the body of
  \<^verbatim>\<open>home\<close> does not read it.
\<close>

record http_request =
  query_args :: "(py_str \<times> py_str) list"
  headers :: "(py_str \<times> py_str) list"
  data :: py_str

record response =
  status :: nat
  content_type :: py_str
  body :: py_str

text \<open>
  A text can be encoded in UTF-8 when each of its code points is a Unicode scalar
  value: the surrogates U+D800 to U+DFFF, which a Python \<^verbatim>\<open>str\<close> can hold one by one,
  have no encoding.
\<close>

definition utf8_encodable :: "py_str \<Rightarrow> bool" where
  "utf8_encodable text = list_all (\<lambda>cp. cp < 0xD800 \<or> (0xDFFF < cp \<and> cp \<le> 0x10FFFF)) text"

text \<open>
  The framework turns a \<^verbatim>\<open>str\<close> returned by a view into a response with status 200
  and its default content type, \<^verbatim>\<open>text/html\<close>, the body being the UTF-8 encoding of
  the text (the record holds the text). Encoding is strict: for a text that cannot be
  encoded a \<^verbatim>\<open>UnicodeEncodeError\<close> is raised, whose message no client sees.
\<close>

definition make_response :: "py_str \<Rightarrow> py_exception + response" where
  "make_response rv =
     (if utf8_encodable rv
      then Inr \<lparr>status = 200, content_type = lit ''text/html; charset=utf-8'', body = rv\<rparr>
      else Inl (PyException ''UnicodeEncodeError'' True (Inr (lit ''surrogates not allowed''))))"

text \<open>
  An instance of \<^verbatim>\<open>Exception\<close> that leaves the view, or the making of the response,
  is answered by the framework with its page for status 500 (\<^verbatim>\<open>app.py\<close> registers no
  error handler and starts the application without debug mode; the framework's own HTTP
  exceptions, which carry a status of their own and which nothing called by \<^verbatim>\<open>app.py\<close>
  raises, are left aside). Any other raised object is raised again.
\<close>

definition internal_server_error :: response where
  "internal_server_error =
     \<lparr>status = 500,
      content_type = lit ''text/html; charset=utf-8'',
      body = lit ''<!doctype html>'' @ [0x0A]
           @ lit ''<html lang=en>'' @ [0x0A]
           @ lit ''<title>500 Internal Server Error</title>'' @ [0x0A]
           @ lit ''<h1>Internal Server Error</h1>'' @ [0x0A]
           @ lit (''<p>The server encountered an internal error and was unable to complete ''
                  @ ''your request. Either the server is overloaded or there is an error in ''
                  @ ''the application.</p>'') @ [0x0A]\<rparr>"

definition handle_exception :: "py_exception \<Rightarrow> py_exception + response" where
  "handle_exception e = (if is_Exception e then Inr internal_server_error else Inl e)"

definition get_root :: "connector \<Rightarrow> http_request \<Rightarrow> process \<Rightarrow> (py_exception + response) \<times> process" where
  "get_root c req s =
     (case home c s of
        (Inr rv, s') \<Rightarrow>
          (case make_response rv of
             Inr r \<Rightarrow> (Inr r, s')
           | Inl e \<Rightarrow> (handle_exception e, s'))
      | (Inl e, s') \<Rightarrow> (handle_exception e, s'))"

text \<open>
  Successive requests to \<^verbatim>\<open>GET /\<close>, each with the connector behaviour of its moment:
  every invocation of the handler starts in the state the previous one left.
\<close>

fun serve :: "process \<Rightarrow> (http_request \<times> connector) list \<Rightarrow> (py_exception + response) list \<times> process" where
  "serve s [] = ([], s)"
| "serve s ((req, c) # rest) =
     (case get_root c req s of
        (r, s') \<Rightarrow> (case serve s' rest of (rs, s'') \<Rightarrow> (r # rs, s'')))"

section \<open>Example inputs\<close>

text \<open>
  Concrete inputs for the instances below: a process just started under an empty
  environment and the same process after an earlier operation; a bare request and one
  carrying query parameters, a header and a body; connectors that accept or refuse
  whatever they are given; and six raised objects (a short message, the same message
  under another class, a nine-character message, one of more than 50 characters, one
  whose \<^verbatim>\<open>__str__\<close> returns bytes, and one whose message holds the surrogate U+DCFF).
\<close>

abbreviation fresh_process :: process where
  "fresh_process \<equiv> \<lparr>globals = module_init Map.empty, db_trace = []\<rparr>"

abbreviation used_process :: process where
  "used_process \<equiv> \<lparr>globals = module_init Map.empty, db_trace = [Connect []]\<rparr>"

abbreviation bare_request :: http_request where
  "bare_request \<equiv> \<lparr>query_args = [], headers = [], data = []\<rparr>"

abbreviation loaded_request :: http_request where
  "loaded_request \<equiv>
     \<lparr>query_args = [(lit ''host'', lit ''other.example'')],
      headers = [(lit ''X-Debug'', lit ''1'')],
      data = lit ''RDS_HOST=other.example''\<rparr>"

abbreviation accepts :: "nat \<Rightarrow> connector" where
  "accepts n \<equiv> (\<lambda>kw. Connected n)"

abbreviation refuses :: "py_exception \<Rightarrow> connector" where
  "refuses e \<equiv> (\<lambda>kw. Raised e)"

abbreviation no_route :: py_exception where
  "no_route \<equiv> PyException ''InterfaceError'' True (Inr (lit ''2003: no route to host''))"

abbreviation no_route_timeout :: py_exception where
  "no_route_timeout \<equiv> PyException ''TimeoutError'' True (Inr (lit ''2003: no route to host''))"

abbreviation timed_out :: py_exception where
  "timed_out \<equiv> PyException ''InterfaceError'' True (Inr (lit ''timed out''))"

abbreviation cannot_connect :: py_exception where
  "cannot_connect \<equiv>
     PyException ''DatabaseError'' True
       (Inr (lit
          ''2003 (HY000): Cannot connect to MySQL server on your-db-endpoint.rds.amazonaws.com:3306 (110)''))"

abbreviation non_string :: py_exception where
  "non_string \<equiv> PyException ''TypeError'' True (Inr (lit ''__str__ returned non-string (type bytes)''))"

abbreviation bytes_message :: py_exception where
  "bytes_message \<equiv> PyException ''DatabaseError'' True (Inl non_string)"

abbreviation surrogate_host :: py_exception where
  "surrogate_host \<equiv>
     PyException ''OSError'' True (Inr (lit ''host '' @ [0xDCFF] @ lit '' unreachable''))"

section \<open>Basic facts about one invocation\<close>

lemma home_Connected:
  assumes "c (home_kwargs (globals s)) = Connected n"
  shows "home c s =
     (Inr (0x2705 # lit '' Connected to RDS MySQL instance''),
      s\<lparr>db_trace := db_trace s @ [Connect (home_kwargs (globals s))]\<rparr>)"
  using assms by (simp add: home_def mysql_connector_connect_def)

lemma home_Raised_Exception:
  assumes "c (home_kwargs (globals s)) = Raised e" and "is_Exception e"
    and "exc_str e = Inr msg"
  shows "home c s =
     (Inr ([0x26A0, 0xFE0F] @ lit '' Backend is running but RDS connection failed: ''
             @ take 50 msg @ lit ''...''),
      s\<lparr>db_trace := db_trace s @ [Connect (home_kwargs (globals s))]\<rparr>)"
  using assms by (simp add: home_def mysql_connector_connect_def error_detail_def)

lemma home_Raised_str_raises:
  assumes "c (home_kwargs (globals s)) = Raised e" and "is_Exception e"
    and "exc_str e = Inl raised"
  shows "home c s =
     (Inl raised, s\<lparr>db_trace := db_trace s @ [Connect (home_kwargs (globals s))]\<rparr>)"
  using assms by (simp add: home_def mysql_connector_connect_def error_detail_def)

lemma home_Raised_other:
  assumes "c (home_kwargs (globals s)) = Raised e" and "\<not> is_Exception e"
  shows "home c s =
     (Inl e, s\<lparr>db_trace := db_trace s @ [Connect (home_kwargs (globals s))]\<rparr>)"
  using assms by (simp add: home_def mysql_connector_connect_def)

lemma home_state:
  "snd (home c s) = s\<lparr>db_trace := db_trace s @ [Connect (home_kwargs (globals s))]\<rparr>"
  by (simp add: home_def mysql_connector_connect_def split: connect_result.split sum.split)

lemma get_root_state: "snd (get_root c req s) = snd (home c s)"
  by (cases "home c s") (simp add: get_root_def split: sum.split)

lemma get_root_result:
  "fst (get_root c req s) =
     (case fst (home c s) of
        Inr rv \<Rightarrow> (case make_response rv of Inr r \<Rightarrow> Inr r | Inl e \<Rightarrow> handle_exception e)
      | Inl e \<Rightarrow> handle_exception e)"
  by (cases "home c s") (simp add: get_root_def split: sum.split)

lemma failure_text_encodable:
  "utf8_encodable ([0x26A0, 0xFE0F] @ lit '' Backend is running but RDS connection failed: ''
                     @ detail @ lit ''...'')
     = utf8_encodable detail"
  "utf8_encodable (0x26A0 # 0xFE0F # lit '' Backend is running but RDS connection failed: ''
                     @ detail @ lit ''...'')
     = utf8_encodable detail"
  by (simp_all add: utf8_encodable_def lit_def)

lemma success_text_encodable:
  "utf8_encodable (0x2705 # lit '' Connected to RDS MySQL instance'')"
  by (simp add: utf8_encodable_def lit_def)

lemma internal_server_error_status: "status internal_server_error = 500"
  by (simp add: internal_server_error_def)

lemma get_root_escaped:
  assumes "fst (home c s) = Inl e" and "is_Exception e"
  shows "fst (get_root c req s) = Inr internal_server_error"
  using assms by (simp add: get_root_result handle_exception_def)

lemma get_root_unencodable:
  assumes "fst (home c s) = Inr rv" and "\<not> utf8_encodable rv"
  shows "fst (get_root c req s) = Inr internal_server_error"
  using assms by (simp add: get_root_result make_response_def handle_exception_def)

lemma home_result_cong:
  assumes "globals s = globals t"
  shows "fst (home c s) = fst (home c t)"
  using assms
  by (simp add: home_def mysql_connector_connect_def split: connect_result.split sum.split)

lemma get_root_result_cong:
  assumes "globals s = globals t"
  shows "fst (get_root c req s) = fst (get_root c req' t)"
  using home_result_cong [OF assms, of c] by (simp add: get_root_result)

lemma get_root_globals: "globals (snd (get_root c req s)) = globals s"
  by (simp add: get_root_state home_state)

lemma serve_globals: "globals (snd (serve s reqs)) = globals s"
proof (induction reqs arbitrary: s)
  case Nil
  show ?case by simp
next
  case (Cons rc reqs)
  obtain req c where rc: "rc = (req, c)" by (cases rc)
  obtain r s' where step: "get_root c req s = (r, s')" by (cases "get_root c req s")
  obtain rs s'' where rest: "serve s' reqs = (rs, s'')" by (cases "serve s' reqs")
  from step get_root_globals [of c req s] have "globals s' = globals s" by simp
  moreover from rest Cons.IH [of s'] have "globals s'' = globals s'" by simp
  ultimately show ?case using rc step rest by simp
qed

lemma serve_results:
  "fst (serve s reqs) = map (\<lambda>(req, c). fst (get_root c req s)) reqs"
proof (induction reqs arbitrary: s)
  case Nil
  show ?case by simp
next
  case (Cons rc reqs)
  obtain req c where rc: "rc = (req, c)" by (cases rc)
  obtain r s' where step: "get_root c req s = (r, s')" by (cases "get_root c req s")
  from step get_root_globals [of c req s] have same: "globals s' = globals s" by simp
  obtain rs s'' where rest: "serve s' reqs = (rs, s'')" by (cases "serve s' reqs")
  have "map (\<lambda>(req, c). fst (get_root c req s')) reqs
      = map (\<lambda>(req, c). fst (get_root c req s)) reqs"
    using get_root_result_cong [OF same] by (auto intro: map_cong)
  with Cons.IH [of s'] rest have "rs = map (\<lambda>(req, c). fst (get_root c req s)) reqs" by simp
  with rc step rest show ?case by simp
qed

section \<open>Failure of the connection attempt\<close>

text \<open>
  Claim C1, as amended. Whenever the connection attempt of a request to \<^verbatim>\<open>GET /\<close>
  raises an exception (an instance of \<^verbatim>\<open>Exception\<close>, of whatever class) whose
  \<^verbatim>\<open>str\<close> is a text with its first 50 characters encodable in UTF-8, \<^verbatim>\<open>home\<close>
  intercepts it and returns the failure text: nothing leaves the handler as a raised
  object, and the response has status 200 and the content type \<^verbatim>\<open>text/html\<close>.
\<close>

theorem probe_failure_is_caught:
  assumes "c (home_kwargs (globals s)) = Raised e" and "is_Exception e"
    and "exc_str e = Inr msg" and "utf8_encodable (take 50 msg)"
  shows "fst (home c s)
           = Inr ([0x26A0, 0xFE0F] @ lit '' Backend is running but RDS connection failed: ''
                    @ take 50 msg @ lit ''...'')
       \<and> (\<exists>r. fst (get_root c req s) = Inr r \<and> status r = 200 \<and> 200 \<le> status r \<and> status r < 300
              \<and> content_type r = lit ''text/html; charset=utf-8''
              \<and> Inr (body r) = fst (home c s))"
  using assms home_Raised_Exception [of c s e msg]
  by (simp add: get_root_result make_response_def failure_text_encodable)

theorem probe_failure_is_caught_witness:
  "refuses no_route (home_kwargs (globals fresh_process)) = Raised no_route
   \<and> is_Exception no_route
   \<and> exc_str no_route = Inr (lit ''2003: no route to host'')
   \<and> utf8_encodable (take 50 (lit ''2003: no route to host''))
   \<and> fst (home (refuses no_route) fresh_process)
     = Inr ([0x26A0, 0xFE0F] @ lit '' Backend is running but RDS connection failed: ''
              @ lit ''2003: no route to host'' @ lit ''...'')
   \<and> (\<exists>r. fst (get_root (refuses no_route) bare_request fresh_process) = Inr r
          \<and> status r = 200 \<and> content_type r = lit ''text/html; charset=utf-8'')"
proof -
  have enc: "utf8_encodable (take 50 (lit ''2003: no route to host''))"
    by (simp add: utf8_encodable_def lit_def)
  have cut: "take 50 (lit ''2003: no route to host'') = lit ''2003: no route to host''"
    by (simp add: lit_def)
  show ?thesis
    using probe_failure_is_caught
      [of "refuses no_route" fresh_process no_route "lit ''2003: no route to host''" bare_request]
      enc cut
    by auto
qed

text \<open>
  Two instances outside that statement. An exception whose \<^verbatim>\<open>__str__\<close> returns
  bytes: \<^verbatim>\<open>str(e)\<close> raises a \<^verbatim>\<open>TypeError\<close> inside the \<^verbatim>\<open>except\<close> block, which leaves
  \<^verbatim>\<open>home\<close>, and the request is answered with status 500. An ordinary failure: the
  content type of the response is \<^verbatim>\<open>text/html\<close>, not \<^verbatim>\<open>text/plain\<close>.
\<close>

theorem probe_failure_counterexample:
  "is_Exception bytes_message
   \<and> fst (home (refuses bytes_message) fresh_process) = Inl non_string
   \<and> fst (get_root (refuses bytes_message) bare_request fresh_process)
       = Inr internal_server_error
   \<and> status internal_server_error = 500
   \<and> fst (get_root (refuses no_route) bare_request fresh_process)
       = Inr \<lparr>status = 200,
              content_type = lit ''text/html; charset=utf-8'',
              body = [0x26A0, 0xFE0F] @ lit '' Backend is running but RDS connection failed: ''
                       @ lit ''2003: no route to host'' @ lit ''...''\<rparr>
   \<and> lit ''text/html; charset=utf-8'' \<noteq> lit ''text/plain; charset=utf-8''"
  by (simp add: get_root_result home_def mysql_connector_connect_def error_detail_def
        handle_exception_def make_response_def failure_text_encodable
        internal_server_error_status)
     (simp add: utf8_encodable_def lit_def)

text \<open>
  A raised object whose class does not derive from \<^verbatim>\<open>Exception\<close> is outside the
  \<^verbatim>\<open>except\<close> clause and leaves \<^verbatim>\<open>home\<close> as it came.
\<close>

lemma other_raise_leaves_home:
  assumes "c (home_kwargs (globals s)) = Raised e" and "\<not> is_Exception e"
  shows "fst (home c s) = Inl e" and "fst (get_root c req s) = Inl e"
  using assms home_Raised_other [of c s e]
  by (simp_all add: get_root_result handle_exception_def)

text \<open>
  Claim C2, as amended. For an exception whose \<^verbatim>\<open>str\<close> is a text of \<open>n\<close> characters,
  the error detail embedded in the failure text is the slice \<^verbatim>\<open>str(e)[:50]\<close>: the
  first \<open>min 50 n\<close> characters of that text, that is its first 50 characters when it
  has 50 or more, and the whole text when it has fewer. It never has more than 50.
\<close>

theorem error_detail_length:
  assumes "c (home_kwargs (globals s)) = Raised e" and "is_Exception e"
    and "exc_str e = Inr msg"
  shows "error_detail e = Inr (take 50 msg)
       \<and> fst (home c s)
           = Inr ([0x26A0, 0xFE0F] @ lit '' Backend is running but RDS connection failed: ''
                    @ take 50 msg @ lit ''...'')
       \<and> take 50 msg @ drop 50 msg = msg
       \<and> (\<forall>i. i < length (take 50 msg) \<longrightarrow> take 50 msg ! i = msg ! i)
       \<and> length (take 50 msg) = min 50 (length msg)
       \<and> (50 \<le> length msg \<longrightarrow> length (take 50 msg) = 50)
       \<and> (length msg < 50 \<longrightarrow> take 50 msg = msg)"
  using assms home_Raised_Exception [of c s e msg] by (simp add: error_detail_def)

theorem error_detail_length_witness:
  "refuses cannot_connect (home_kwargs (globals fresh_process)) = Raised cannot_connect
   \<and> is_Exception cannot_connect
   \<and> error_detail cannot_connect
       = Inr (lit ''2003 (HY000): Cannot connect to MySQL server on yo'')
   \<and> length (lit ''2003 (HY000): Cannot connect to MySQL server on yo'') = 50
   \<and> fst (home (refuses cannot_connect) fresh_process)
     = Inr ([0x26A0, 0xFE0F] @ lit '' Backend is running but RDS connection failed: ''
              @ lit ''2003 (HY000): Cannot connect to MySQL server on yo'' @ lit ''...'')"
  using error_detail_length
    [of "refuses cannot_connect" fresh_process cannot_connect
        "lit
          ''2003 (HY000): Cannot connect to MySQL server on your-db-endpoint.rds.amazonaws.com:3306 (110)''"]
  by (simp add: lit_def)

text \<open>
  With the nine-character message \<^verbatim>\<open>timed out\<close> the detail is the whole message, nine
  characters and not 50.
\<close>

theorem error_detail_short_counterexample:
  "fst (home (refuses timed_out) fresh_process)
     = Inr ([0x26A0, 0xFE0F] @ lit '' Backend is running but RDS connection failed: ''
              @ lit ''timed out'' @ lit ''...'')
   \<and> error_detail timed_out = Inr (lit ''timed out'')
   \<and> length (projr (error_detail timed_out)) = 9
   \<and> length (projr (error_detail timed_out)) \<noteq> 50"
  by (simp add: home_def mysql_connector_connect_def error_detail_def lit_def)

text \<open>
  Claim C3, as amended. Whenever the connection attempt raises an exception whose
  \<^verbatim>\<open>str\<close> is a text with its first 50 characters encodable in UTF-8, the response has
  status 200 and its body is the warning sign and the fixed text, then the first
  characters of that text, at most 50 of them, then three dots.
\<close>

theorem failure_response_shape:
  assumes "c (home_kwargs (globals s)) = Raised e" and "is_Exception e"
    and "exc_str e = Inr msg" and "utf8_encodable (take 50 msg)"
  shows "fst (get_root c req s)
           = Inr \<lparr>status = 200,
                  content_type = lit ''text/html; charset=utf-8'',
                  body = [0x26A0, 0xFE0F] @ lit '' Backend is running but RDS connection failed: ''
                           @ take 50 msg @ lit ''...''\<rparr>
       \<and> length (take 50 msg) \<le> 50
       \<and> take 50 msg @ drop 50 msg = msg"
  using assms home_Raised_Exception [of c s e msg]
  by (simp add: get_root_result make_response_def failure_text_encodable)

theorem failure_response_shape_witness:
  "refuses cannot_connect (home_kwargs (globals fresh_process)) = Raised cannot_connect
   \<and> is_Exception cannot_connect
   \<and> utf8_encodable (lit ''2003 (HY000): Cannot connect to MySQL server on yo'')
   \<and> fst (get_root (refuses cannot_connect) bare_request fresh_process)
     = Inr \<lparr>status = 200,
            content_type = lit ''text/html; charset=utf-8'',
            body = [0x26A0, 0xFE0F] @ lit '' Backend is running but RDS connection failed: ''
                     @ lit ''2003 (HY000): Cannot connect to MySQL server on yo'' @ lit ''...''\<rparr>"
proof -
  have cut: "take 50 (lit
          ''2003 (HY000): Cannot connect to MySQL server on your-db-endpoint.rds.amazonaws.com:3306 (110)'')
             = lit ''2003 (HY000): Cannot connect to MySQL server on yo''"
    by (simp add: lit_def)
  have enc: "utf8_encodable (lit ''2003 (HY000): Cannot connect to MySQL server on yo'')"
    by (simp add: utf8_encodable_def lit_def)
  show ?thesis
    using failure_response_shape
      [of "refuses cannot_connect" fresh_process cannot_connect
          "lit
          ''2003 (HY000): Cannot connect to MySQL server on your-db-endpoint.rds.amazonaws.com:3306 (110)''" bare_request]
      enc
    by (simp add: cut)
qed

text \<open>
  The connection attempt raises an exception with the message \<^verbatim>\<open>host\<close>, U+DCFF,
  \<^verbatim>\<open>unreachable\<close>. \<^verbatim>\<open>home\<close> returns the failure text around it, which cannot be
  encoded, and the response has status 500 and the body of the error page, which
  starts with \<^verbatim>\<open><!d\<close> and not with the warning sign.
\<close>

theorem failure_response_counterexample:
  "is_Exception surrogate_host
   \<and> fst (home (refuses surrogate_host) fresh_process)
       = Inr ([0x26A0, 0xFE0F] @ lit '' Backend is running but RDS connection failed: ''
                @ lit ''host '' @ [0xDCFF] @ lit '' unreachable'' @ lit ''...'')
   \<and> fst (get_root (refuses surrogate_host) bare_request fresh_process)
       = Inr internal_server_error
   \<and> status internal_server_error = 500
   \<and> take 3 (body internal_server_error) = lit ''<!d''
   \<and> take 3 (body internal_server_error) \<noteq> take 3 ([0x26A0, 0xFE0F] @ lit '' Backend is running but RDS connection failed: '')"
  by (simp add: get_root_result home_def mysql_connector_connect_def error_detail_def
        handle_exception_def make_response_def failure_text_encodable)
     (simp add: utf8_encodable_def lit_def internal_server_error_def)

section \<open>Success of the connection attempt\<close>

text \<open>
  Claim C4. Whenever the connection attempt of a request to \<^verbatim>\<open>GET /\<close> succeeds, the
  response has status 200 and its body is exactly the check mark U+2705, a space and
  the text \<^verbatim>\<open>Connected to RDS MySQL instance\<close>.
\<close>

theorem success_response:
  assumes "c (home_kwargs (globals s)) = Connected n"
  shows "fst (get_root c req s)
           = Inr \<lparr>status = 200,
                  content_type = lit ''text/html; charset=utf-8'',
                  body = 0x2705 # lit '' Connected to RDS MySQL instance''\<rparr>
       \<and> 0x2705 # lit '' Connected to RDS MySQL instance''
           = [0x2705, 0x20] @ lit ''Connected to RDS MySQL instance''"
  using assms home_Connected [of c s n]
  by (simp add: get_root_result make_response_def success_text_encodable) (simp add: lit_def)

theorem success_response_witness:
  "accepts 1 (home_kwargs (globals fresh_process)) = Connected 1
   \<and> fst (get_root (accepts 1) bare_request fresh_process)
     = Inr \<lparr>status = 200,
                  content_type = lit ''text/html; charset=utf-8'',
                  body = 0x2705 # lit '' Connected to RDS MySQL instance''\<rparr>"
  using success_response [of "accepts 1" fresh_process 1 bare_request]
  by simp

section \<open>The connection target\<close>

text \<open>
  Claim C5. In a process started under the environment \<open>environ\<close>, the connection
  attempt of the handler is made with the host taken from the variable
  \<^verbatim>\<open>RDS_HOST\<close> when the environment has it and the literal default otherwise, and with
  user \<^verbatim>\<open>admin\<close>, password \<^verbatim>\<open>MyDBPass123!\<close> and port 3306 whatever the environment
  holds. Setting the variable to \<open>h\<close> makes \<open>h\<close> the host of the attempt.
\<close>

theorem connection_target:
  "home_kwargs (module_init environ)
     = [(''host'', PyStr (case environ (lit ''RDS_HOST'') of
                            Some h \<Rightarrow> h
                          | None \<Rightarrow> lit ''your-db-endpoint.rds.amazonaws.com'')),
        (''user'', PyStr (lit ''admin'')),
        (''password'', PyStr (lit ''MyDBPass123!'')),
        (''port'', PyInt 3306)]
   \<and> db_trace (snd (home c \<lparr>globals = module_init environ, db_trace = tr\<rparr>))
     = tr @ [Connect (home_kwargs (module_init environ))]
   \<and> home_kwargs (module_init (environ(lit ''RDS_HOST'' \<mapsto> h)))
     = [(''host'', PyStr h),
        (''user'', PyStr (lit ''admin'')),
        (''password'', PyStr (lit ''MyDBPass123!'')),
        (''port'', PyInt 3306)]"
  by (simp add: home_kwargs_def module_init_def environ_get_def home_state)

section \<open>The two forms of the response\<close>

text \<open>
  Claim C6, as amended. For every request to \<^verbatim>\<open>GET /\<close> whose connection attempt
  returns, or raises an exception whose \<^verbatim>\<open>str\<close> is a text with its first 50
  characters encodable in UTF-8, the response has status 200 and its body is the fixed
  success text in the first case and the failure text around the first characters, at
  most 50, of the message in the second; and every response with status 200 has one of
  these two bodies.
\<close>

theorem two_response_forms:
  "(\<forall>n. c (home_kwargs (globals s)) = Connected n \<longrightarrow>
        fst (get_root c req s)
          = Inr \<lparr>status = 200, content_type = lit ''text/html; charset=utf-8'',
                 body = 0x2705 # lit '' Connected to RDS MySQL instance''\<rparr>)
   \<and> (\<forall>e msg. c (home_kwargs (globals s)) = Raised e \<and> is_Exception e \<and>
          exc_str e = Inr msg \<and> utf8_encodable (take 50 msg) \<longrightarrow>
        fst (get_root c req s)
          = Inr \<lparr>status = 200, content_type = lit ''text/html; charset=utf-8'',
                 body = [0x26A0, 0xFE0F] @ lit '' Backend is running but RDS connection failed: ''
                          @ take 50 msg @ lit ''...''\<rparr>)
   \<and> (\<forall>r. fst (get_root c req s) = Inr r \<and> status r = 200 \<longrightarrow>
        (\<exists>n. c (home_kwargs (globals s)) = Connected n) \<and>
        body r = 0x2705 # lit '' Connected to RDS MySQL instance'' \<or>
        (\<exists>e msg. c (home_kwargs (globals s)) = Raised e \<and> exc_str e = Inr msg \<and>
           body r = [0x26A0, 0xFE0F] @ lit '' Backend is running but RDS connection failed: ''
                      @ take 50 msg @ lit ''...''))"
proof (cases "c (home_kwargs (globals s))")
  case (Connected n)
  with home_Connected [of c s n] show ?thesis
    by (simp add: get_root_result make_response_def success_text_encodable)
next
  case (Raised e)
  show ?thesis
  proof (cases "is_Exception e")
    case False
    with Raised home_Raised_other [of c s e] show ?thesis
      by (simp add: get_root_result handle_exception_def)
  next
    case True
    show ?thesis
    proof (cases "exc_str e")
      case (Inl raised)
      with Raised True home_Raised_str_raises [of c s e raised] show ?thesis
        by (auto simp: get_root_result handle_exception_def internal_server_error_status)
    next
      case (Inr msg)
      with Raised True home_Raised_Exception [of c s e msg] show ?thesis
        by (auto simp: get_root_result make_response_def failure_text_encodable
              handle_exception_def internal_server_error_status)
    qed
  qed
qed

theorem two_response_forms_witness:
  "fst (get_root (refuses no_route) bare_request fresh_process)
     = Inr \<lparr>status = 200, content_type = lit ''text/html; charset=utf-8'',
            body = [0x26A0, 0xFE0F] @ lit '' Backend is running but RDS connection failed: ''
                     @ lit ''2003: no route to host'' @ lit ''...''\<rparr>
   \<and> fst (get_root (accepts 1) bare_request fresh_process)
     = Inr \<lparr>status = 200, content_type = lit ''text/html; charset=utf-8'',
            body = 0x2705 # lit '' Connected to RDS MySQL instance''\<rparr>"
proof -
  have enc: "utf8_encodable (take 50 (lit ''2003: no route to host''))"
    by (simp add: utf8_encodable_def lit_def)
  have cut: "take 50 (lit ''2003: no route to host'') = lit ''2003: no route to host''"
    by (simp add: lit_def)
  show ?thesis
    using two_response_forms [of "refuses no_route" fresh_process bare_request] enc
          two_response_forms [of "accepts 1" fresh_process bare_request]
    by (simp add: cut)
qed

text \<open>
  Two requests with a third body and another status. The message of the first
  exception holds a surrogate, and \<^verbatim>\<open>str\<close> of the second raises: both are answered with
  the error page, status 500, whose body is neither the success text nor starts like
  the failure text.
\<close>

theorem third_response_counterexample:
  "refuses surrogate_host (home_kwargs (globals fresh_process)) = Raised surrogate_host
   \<and> fst (get_root (refuses surrogate_host) loaded_request fresh_process)
       = Inr internal_server_error
   \<and> refuses bytes_message (home_kwargs (globals used_process)) = Raised bytes_message
   \<and> fst (get_root (refuses bytes_message) loaded_request used_process)
       = Inr internal_server_error
   \<and> status internal_server_error \<noteq> 200
   \<and> body internal_server_error \<noteq> 0x2705 # lit '' Connected to RDS MySQL instance''
   \<and> take 49 (body internal_server_error)
       \<noteq> [0x26A0, 0xFE0F] @ lit '' Backend is running but RDS connection failed: ''"
  by (simp add: get_root_result home_def mysql_connector_connect_def error_detail_def
        handle_exception_def make_response_def failure_text_encodable)
     (simp add: utf8_encodable_def lit_def internal_server_error_def)

section \<open>Requests are independent\<close>

text \<open>
  Claim C7. An invocation of the handler leaves the module's globals (host, port, user,
  password, database name) as they were; so they are the same after any number of
  requests, and the result of every request of a sequence is what the handler gives for
  that request in the initial state: nothing accumulates from one request to the next.
\<close>

theorem requests_are_stateless:
  "globals (snd (get_root c req s)) = globals s
   \<and> globals (snd (serve s reqs)) = globals s
   \<and> fst (serve s reqs) = map (\<lambda>(req, c). fst (get_root c req s)) reqs"
  by (simp add: get_root_globals serve_globals serve_results)

text \<open>
  Claim C8. The handler reads nothing of the request: two requests differing in query
  parameters, headers and body get the same result from the same connector; and two
  requests whose connection attempts both succeed, or both raise exceptions with the
  same string form, get identical responses.
\<close>

theorem request_is_not_consumed:
  assumes "globals s1 = globals s2"
    and "(\<exists>n1 n2. c1 (home_kwargs (globals s1)) = Connected n1 \<and>
                  c2 (home_kwargs (globals s2)) = Connected n2)
       \<or> (\<exists>e1 e2. c1 (home_kwargs (globals s1)) = Raised e1 \<and>
                  c2 (home_kwargs (globals s2)) = Raised e2 \<and>
                  is_Exception e1 \<and> is_Exception e2 \<and> exc_str e1 = exc_str e2)"
  shows "get_root c1 req1 s1 = get_root c1 req2 s1
       \<and> fst (get_root c1 req1 s1) = fst (get_root c2 req2 s2)"
proof -
  have "get_root c1 req1 s1 = get_root c1 req2 s1"
    by (simp add: get_root_def)
  moreover have "fst (home c1 s1) = fst (home c2 s2)"
    using assms(2)
  proof (elim disjE exE conjE)
    fix n1 n2
    assume "c1 (home_kwargs (globals s1)) = Connected n1"
      and "c2 (home_kwargs (globals s2)) = Connected n2"
    then show ?thesis
      using home_Connected [of c1 s1 n1] home_Connected [of c2 s2 n2] by simp
  next
    fix e1 e2
    assume "c1 (home_kwargs (globals s1)) = Raised e1"
      and "c2 (home_kwargs (globals s2)) = Raised e2"
      and "is_Exception e1" and "is_Exception e2" and "exc_str e1 = exc_str e2"
    then show ?thesis
      by (simp add: home_def mysql_connector_connect_def error_detail_def split: sum.split)
  qed
  ultimately show ?thesis by (simp add: get_root_result)
qed

theorem request_is_not_consumed_witness:
  "globals fresh_process = globals used_process
   \<and> refuses no_route (home_kwargs (globals fresh_process)) = Raised no_route
   \<and> refuses no_route_timeout (home_kwargs (globals used_process)) = Raised no_route_timeout
   \<and> is_Exception no_route
   \<and> is_Exception no_route_timeout
   \<and> exc_str no_route = exc_str no_route_timeout
   \<and> fst (get_root (refuses no_route) bare_request fresh_process)
     = fst (get_root (refuses no_route_timeout) loaded_request used_process)"
proof -
  have same: "globals fresh_process = globals used_process"
    by simp
  have outcome:
    "(\<exists>n1 n2. refuses no_route (home_kwargs (globals fresh_process)) = Connected n1 \<and>
              refuses no_route_timeout (home_kwargs (globals used_process)) = Connected n2)
     \<or> (\<exists>e1 e2. refuses no_route (home_kwargs (globals fresh_process)) = Raised e1 \<and>
              refuses no_route_timeout (home_kwargs (globals used_process)) = Raised e2 \<and>
              is_Exception e1 \<and> is_Exception e2 \<and> exc_str e1 = exc_str e2)"
    by simp
  have "fst (get_root (refuses no_route) bare_request fresh_process)
      = fst (get_root (refuses no_route_timeout) loaded_request used_process)"
    using request_is_not_consumed [OF same outcome, of bare_request loaded_request]
    by (rule conjunct2)
  then show ?thesis by simp
qed

section \<open>What the handler does on the database side\<close>

text \<open>
  Claim C9. When the connection attempt succeeds, the only database operation of the
  request is that attempt: the trace grows by the one \<open>Connect\<close> entry, so no query is
  issued on the connection (nor is it closed) before the handler returns and the
  connection object is dropped.
\<close>

theorem no_query_on_connection:
  assumes "c (home_kwargs (globals s)) = Connected n"
  shows "db_trace (snd (get_root c req s)) = db_trace s @ [Connect (home_kwargs (globals s))]
       \<and> (\<forall>m q. Query m q \<notin> set (drop (length (db_trace s)) (db_trace (snd (get_root c req s)))))
       \<and> (\<forall>m. Close m \<notin> set (drop (length (db_trace s)) (db_trace (snd (get_root c req s)))))"
  by (simp add: get_root_state home_state)

theorem no_query_on_connection_witness:
  "accepts 1 (home_kwargs (globals used_process)) = Connected 1
   \<and> db_trace (snd (get_root (accepts 1) bare_request used_process))
     = [Connect [], Connect (home_kwargs (module_init Map.empty))]"
  using no_query_on_connection [of "accepts 1" used_process 1 bare_request]
  by simp

text \<open>
  Claim C10. The keyword arguments of the connection attempt are \<^verbatim>\<open>host\<close>,
  \<^verbatim>\<open>user\<close>, \<^verbatim>\<open>password\<close> and \<^verbatim>\<open>port\<close>: no database is named, and \<^verbatim>\<open>RDS_DB\<close> is
  not read. Replacing its value by any other changes neither the arguments of the
  attempt, nor the result of the request, nor the operations performed.
\<close>

theorem database_name_is_unused:
  "map fst (home_kwargs g) = [''host'', ''user'', ''password'', ''port'']
   \<and> map_of (home_kwargs g) ''database'' = None
   \<and> home_kwargs (g\<lparr>RDS_DB := d\<rparr>) = home_kwargs g
   \<and> fst (get_root c req (s\<lparr>globals := (globals s)\<lparr>RDS_DB := d\<rparr>\<rparr>)) = fst (get_root c req s)
   \<and> db_trace (snd (get_root c req (s\<lparr>globals := (globals s)\<lparr>RDS_DB := d\<rparr>\<rparr>)))
     = db_trace (snd (get_root c req s))"
proof -
  have kw: "home_kwargs (g\<lparr>RDS_DB := d\<rparr>) = home_kwargs g" for g
    by (simp add: home_kwargs_def)
  have "fst (home c (s\<lparr>globals := (globals s)\<lparr>RDS_DB := d\<rparr>\<rparr>)) = fst (home c s)"
    by (simp add: home_def mysql_connector_connect_def kw split: connect_result.split sum.split)
  then show ?thesis
    by (simp add: get_root_result get_root_state home_state kw) (simp add: home_kwargs_def)
qed

end
